theory Spec2Isabelle
  imports Main "HOL-Library.Word" "HOL-Library.AList" "HOL-Library.Sublist"
begin

section \<open>Values, errors and the error aggregator\<close>

text \<open>
  Go's \<open>error\<close> values: a leaf error carries its message (\<open>errors.New\<close>), an aggregate
  (\<open>*Errs\<close>) is an ordered mapping from keys to errors. A value of type \<open>error\<close> that may be
  \<open>nil\<close> is an \<open>error option\<close>.
\<close>

datatype error = Err string | Errs "(string \<times> error) list"

text \<open>
  Go's \<open>any\<close>. \<open>GNil\<close> is the nil interface. A slice \<open>[]any\<close> and a map
  \<open>map[string]any\<close> stored in an interface keep their type even when they are nil, so both
  carry an option: \<open>GSlice None\<close> is the nil slice (length 0, list-typed), \<open>GSlice (Some [])\<close>
  the empty non-nil slice. \<open>GURL\<close> and \<open>GHeader\<close> are a \<open>*url.URL\<close> and an \<open>http.Header\<close>,
  held by their address in the store. A Go map is an association list with distinct
  keys; its order stands for the iteration order, which Go leaves open.
\<close>

datatype gval =
    GNil
  | GString string
  | GBool bool
  | GInt int
  | GDuration "64 word"
  | GURL nat
  | GHeader nat
  | GSlice "gval list option"
  | GMap "(string \<times> gval) list option"
  | GSelectors "selector list"
and selector =
  Selector (sName: string) (sExpr: string) (sType: string) (sAll: bool) (sFollow: bool)
           (sSelectors: "selector list") (sFields: "(string \<times> gval) list")

text \<open>A call of a collaborator or of reflection either returns or panics.\<close>

datatype 'a outcome = Return 'a | Panic string

subsection \<open>strconv.Itoa on indices\<close>

definition digit :: "nat \<Rightarrow> char" where
  "digit d = char_of (48 + d)"

fun Itoa :: "nat \<Rightarrow> string" where
  "Itoa n = (if n < 10 then [digit n] else Itoa (n div 10) @ [digit (n mod 10)])"

declare Itoa.simps [simp del]

subsection \<open>The error aggregator\<close>

text \<open>
  Modelled from the spec: the file that declares \<open>Errs\<close>, \<open>Errs.Add\<close>, \<open>Errs.Get\<close> and
  \<open>AddError\<close> is missing from the sources; its callers and its test \<open>TestErrs\<close> are there.
  The spec (4.4): an ordered mapping from string key to a leaf error or a nested aggregate;
  adding under an existing key does not overwrite, the first occurrence keeps the bare key
  and each subsequent occurrence is suffixed \<open>#1\<close>, \<open>#2\<close>, ... in addition order; adding a
  nil error or an empty key is a no-op; an aggregate added under a key is nested. The
  suffix is found by probing \<open>key#1\<close>, \<open>key#2\<close>, ... for the first key not in use; an
  aggregator with \<open>n\<close> entries has a free key among the first \<open>n + 1\<close> candidates, which
  bounds the search.
\<close>

definition suffixed :: "string \<Rightarrow> nat \<Rightarrow> string" where
  "suffixed key i = key @ ''#'' @ Itoa i"

fun probe :: "string list \<Rightarrow> string \<Rightarrow> nat \<Rightarrow> nat \<Rightarrow> string" where
  "probe keys key i 0 = suffixed key i"
| "probe keys key i (Suc fuel) =
     (if suffixed key i \<in> set keys then probe keys key (Suc i) fuel else suffixed key i)"

definition freshKey :: "string list \<Rightarrow> string \<Rightarrow> string" where
  "freshKey keys key = (if key \<in> set keys then probe keys key 1 (length keys) else key)"

definition Errs_Add :: "(string \<times> error) list \<Rightarrow> string \<Rightarrow> error option \<Rightarrow> (string \<times> error) list" where
  "Errs_Add es key err =
     (case err of
        None \<Rightarrow> es
      | Some e \<Rightarrow> if key = [] then es else es @ [(freshKey (map fst es) key, e)])"

definition Errs_Get :: "(string \<times> error) list \<Rightarrow> string \<Rightarrow> error option" where
  "Errs_Get es key = map_of es key"

text \<open>
  Modelled from the spec: \<open>AddError(errs, key, err)\<close> adds to the aggregate \<open>errs\<close>, starting
  a new one when \<open>errs\<close> is nil. \<open>TestErrs\<close> shows the two remaining cases: with a nil \<open>err\<close>
  or an empty key the result is \<open>errs\<close> itself (nil stays nil), and a plain error passed as
  \<open>errs\<close> is kept under the key \<open>#\<close> of a new aggregate.
\<close>

definition AddError :: "error option \<Rightarrow> string \<Rightarrow> error option \<Rightarrow> error option" where
  "AddError errs key err =
     (if key = [] \<or> err = None then errs
      else case errs of
        None \<Rightarrow> Some (Errs (Errs_Add [] key err))
      | Some (Errs es) \<Rightarrow> Some (Errs (Errs_Add es key err))
      | Some (Err m) \<Rightarrow> Some (Errs (Errs_Add (Errs_Add [] ''#'' (Some (Err m))) key err)))"

text \<open>The keys of an error value: those of the aggregate, none for nil or a leaf.\<close>

fun errKeys :: "error option \<Rightarrow> string list" where
  "errKeys (Some (Errs es)) = map fst es"
| "errKeys _ = []"

fun errGet :: "error option \<Rightarrow> string \<Rightarrow> error option" where
  "errGet (Some (Errs es)) key = Errs_Get es key"
| "errGet _ key = None"

section \<open>Selectors from raw input (selector.go, rules.go)\<close>

definition ErrInvalidSelector :: error where
  "ErrInvalidSelector = Err ''invalid selector''"

definition ErrInvalidSelectors :: error where
  "ErrInvalidSelectors = Err ''invalid selectors''"

definition ErrNotAssignable :: error where
  "ErrNotAssignable = Err ''value is not assignable to field''"

definition KeyName :: string where "KeyName = ''Name''"
definition KeyExpr :: string where "KeyExpr = ''Expr''"
definition KeyType :: string where "KeyType = ''Type''"
definition KeyAll :: string where "KeyAll = ''All''"
definition KeyFollow :: string where "KeyFollow = ''Follow''"
definition KeySelectors :: string where "KeySelectors = ''Selectors''"
definition KeyFields :: string where "KeyFields = ''Fields''"

text \<open>
  \<open>ConvFunc\<close>: the pluggable conversion of a raw value by key; its error, when there is
  one, is all the caller reads. \<open>None\<close> is the nil function.
\<close>

type_synonym convFunc = "(string \<Rightarrow> gval \<Rightarrow> error + gval) option"

text \<open>A selector fresh from the pool: every field zero, the field bag empty.\<close>

definition newPooledSelector :: selector where
  "newPooledSelector = Selector [] [] [] False False [] []"

text \<open>
  The reflective assignment of \<open>processRaw\<close>, at \<open>T = Selector\<close>: \<open>FieldByName(key)\<close> finds one
  of the seven fields of the struct or none, and \<open>AssignableTo\<close> asks for the field's own
  type.
\<close>

datatype assigned = NoField | NotAssignable | Assigned selector

fun setField :: "selector \<Rightarrow> string \<Rightarrow> gval \<Rightarrow> assigned" where
  "setField (Selector n e t a f ss fs) key v =
     (if key = KeyName then (case v of GString s \<Rightarrow> Assigned (Selector s e t a f ss fs) | _ \<Rightarrow> NotAssignable)
      else if key = KeyExpr then (case v of GString s \<Rightarrow> Assigned (Selector n s t a f ss fs) | _ \<Rightarrow> NotAssignable)
      else if key = KeyType then (case v of GString s \<Rightarrow> Assigned (Selector n e s a f ss fs) | _ \<Rightarrow> NotAssignable)
      else if key = KeyAll then (case v of GBool b \<Rightarrow> Assigned (Selector n e t b f ss fs) | _ \<Rightarrow> NotAssignable)
      else if key = KeyFollow then (case v of GBool b \<Rightarrow> Assigned (Selector n e t a b ss fs) | _ \<Rightarrow> NotAssignable)
      else if key = KeySelectors then (case v of GSelectors sl \<Rightarrow> Assigned (Selector n e t a f sl fs) | _ \<Rightarrow> NotAssignable)
      else if key = KeyFields then
        (case v of GMap (Some m) \<Rightarrow> Assigned (Selector n e t a f ss m)
                 | GMap None \<Rightarrow> Assigned (Selector n e t a f ss [])
                 | _ \<Rightarrow> NotAssignable)
      else NoField)"

fun putField :: "selector \<Rightarrow> string \<Rightarrow> gval \<Rightarrow> selector" where
  "putField (Selector n e t a f ss fs) key v =
     Selector n e t a f ss (if v = GNil then AList.delete key fs else AList.update key v fs)"

text \<open>
  The loop of \<open>processRaw\<close> over the entries of the raw map. A converted value that is the
  nil interface has no reflected type: \<open>rValue.Type()\<close> panics when \<open>key\<close> names a field,
  and \<open>SetMapIndex\<close> with the zero \<open>Value\<close> deletes \<open>key\<close> from the field bag otherwise.
\<close>

fun processRaw_loop :: "convFunc \<Rightarrow> (string \<times> gval) list \<Rightarrow> selector \<Rightarrow> error option
    \<Rightarrow> (selector \<times> error option) outcome" where
  "processRaw_loop convF [] output errs = Return (output, errs)"
| "processRaw_loop convF ((key, rawValue) # rest) output errs =
     (case (case convF of None \<Rightarrow> Inr rawValue | Some cf \<Rightarrow> cf key rawValue) of
        Inl err \<Rightarrow> processRaw_loop convF rest output (AddError errs key (Some err))
      | Inr v \<Rightarrow>
          (case setField output key v of
             NoField \<Rightarrow> processRaw_loop convF rest (putField output key v) errs
           | _ \<Rightarrow>
               if v = GNil then Panic ''reflect: call of reflect.Value.Type on zero Value''
               else (case setField output key v of
                       Assigned output' \<Rightarrow> processRaw_loop convF rest output' errs
                     | _ \<Rightarrow> processRaw_loop convF rest output (AddError errs key (Some ErrNotAssignable)))))"

definition processRaw :: "(string \<times> gval) list option \<Rightarrow> selector \<Rightarrow> convFunc
    \<Rightarrow> (selector \<times> error option) outcome" where
  "processRaw raw output convF =
     (case raw of None \<Rightarrow> Return (output, None) | Some m \<Rightarrow> processRaw_loop convF m output None)"

fun withName :: "selector \<Rightarrow> string \<Rightarrow> selector" where
  "withName (Selector n e t a f ss fs) name = Selector name e t a f ss fs"

fun withExpr :: "selector \<Rightarrow> string \<Rightarrow> selector" where
  "withExpr (Selector n e t a f ss fs) expr = Selector n expr t a f ss fs"

text \<open>
  \<open>newSelector\<close> returns a selector pointer (nil is \<open>None\<close>) and an error. The object form
  returns the selector together with the error of \<open>processRaw\<close>.
\<close>

definition newSelector :: "string \<Rightarrow> gval \<Rightarrow> convFunc \<Rightarrow> (selector option \<times> error option) outcome" where
  "newSelector name rawSelector convF =
     (case rawSelector of
        GString selectorValue \<Rightarrow>
          if selectorValue = [] then Return (None, None)
          else Return (Some (withName (withExpr newPooledSelector selectorValue) name), None)
      | GMap selectorValue \<Rightarrow>
          (case processRaw (map_option (AList.delete KeyName) selectorValue) newPooledSelector convF of
             Panic p \<Rightarrow> Panic p
           | Return (sel, err) \<Rightarrow> Return (Some (withName sel name), err))
      | _ \<Rightarrow> Return (None, Some ErrInvalidSelector))"

fun newSelectors_loop :: "convFunc \<Rightarrow> (string \<times> gval) list \<Rightarrow> selector list \<Rightarrow> error option
    \<Rightarrow> (selector list \<times> error option) outcome" where
  "newSelectors_loop convF [] selectors errs = Return (selectors, errs)"
| "newSelectors_loop convF ((name, v) # rest) selectors errs =
     (if name = [] \<or> v = GNil then newSelectors_loop convF rest selectors errs
      else case newSelector name v convF of
        Panic p \<Rightarrow> Panic p
      | Return (sel, err) \<Rightarrow>
          if err \<noteq> None then newSelectors_loop convF rest selectors (AddError errs name err)
          else (case sel of
                  Some s \<Rightarrow> newSelectors_loop convF rest (selectors @ [s]) errs
                | None \<Rightarrow> newSelectors_loop convF rest selectors errs))"

text \<open>The returned slice is nil (\<open>None\<close>) for a nil or ill-typed raw value.\<close>

definition newSelectors :: "gval \<Rightarrow> convFunc \<Rightarrow> (selector list option \<times> error option) outcome" where
  "newSelectors rawSelectors convF =
     (case rawSelectors of
        GNil \<Rightarrow> Return (None, None)
      | GMap None \<Rightarrow> Return (Some [], None)
      | GMap (Some selectorsMap) \<Rightarrow>
          (case newSelectors_loop convF selectorsMap [] None of
             Panic p \<Rightarrow> Panic p
           | Return (sels, errs) \<Rightarrow> Return (Some sels, errs))
      | _ \<Rightarrow> Return (None, Some ErrInvalidSelectors))"

section \<open>The store, Rules and the rules of a followed selector (rules.go, selector.go)\<close>

text \<open>
  \<open>http.Header\<close> is a map from header names to lists of values, and is shared by
  reference; \<open>*url.URL\<close> is a pointer. Both live in a store, at the address that is their
  index; allocation appends, so a new address is never one already in use. The type \<open>'u\<close>
  is the contents of a \<open>url.URL\<close>.
\<close>

type_synonym header = "(string \<times> string list) list"

record 'u store =
  headers :: "header list"
  urls :: "'u list"

definition derefHeader :: "'u store \<Rightarrow> nat \<Rightarrow> header option" where
  "derefHeader st a = (if a < length (headers st) then Some (headers st ! a) else None)"

definition derefURL :: "'u store \<Rightarrow> nat \<Rightarrow> 'u option" where
  "derefURL st a = (if a < length (urls st) then Some (urls st ! a) else None)"

definition newHeader :: "header \<Rightarrow> 'u store \<Rightarrow> nat \<times> 'u store" where
  "newHeader h st = (length (headers st), st\<lparr>headers := headers st @ [h]\<rparr>)"

definition newURL :: "'u \<Rightarrow> 'u store \<Rightarrow> nat \<times> 'u store" where
  "newURL u st = (length (urls st), st\<lparr>urls := urls st @ [u]\<rparr>)"

text \<open>
  The functions of Go's standard library that the code calls on URLs and values, left
  open: \<open>url.Parse\<close>, \<open>URL.IsAbs\<close>, \<open>URL.ResolveReference\<close>, \<open>URL.String\<close>, the zero
  \<open>url.URL{}\<close>, and \<open>fmt.Sprintf("%v", _)\<close>.
\<close>

record 'u stdlib =
  url_Parse :: "string \<Rightarrow> error + 'u"
  url_IsAbs :: "'u \<Rightarrow> bool"
  url_ResolveReference :: "'u \<Rightarrow> 'u \<Rightarrow> 'u"
  url_String :: "'u \<Rightarrow> string"
  url_Zero :: "'u"
  fmt_Sprint :: "gval \<Rightarrow> string"

record rules =
  Method :: string
  URL :: "nat option"
  Proxy :: "nat option"
  Header :: "nat option"
  Timeout :: "64 word"
  UseCookies :: bool
  IgnoreRobotsTxt :: bool
  Delay :: "64 word"
  Selectors :: "selector list"
  Fields :: "(string \<times> gval) list"

definition KeyDelay :: string where "KeyDelay = ''Delay''"
definition KeyHeader :: string where "KeyHeader = ''Header''"
definition KeyIgnoreRobotsTxt :: string where "KeyIgnoreRobotsTxt = ''IgnoreRobotsTxt''"
definition KeyMethod :: string where "KeyMethod = ''Method''"
definition KeyProxy :: string where "KeyProxy = ''Proxy''"
definition KeyTimeout :: string where "KeyTimeout = ''Timeout''"
definition KeyUseCookies :: string where "KeyUseCookies = ''UseCookies''"
definition KeyURL :: string where "KeyURL = ''URL''"

text \<open>
  \<open>Header.Clone\<close>: nil for a nil header, a new map with the same entries otherwise. An
  address outside the store does not occur in Go; the model reads it as nil.
\<close>

definition Header_Clone :: "nat option \<Rightarrow> 'u store \<Rightarrow> nat option \<times> 'u store" where
  "Header_Clone h st =
     (case h of
        None \<Rightarrow> (None, st)
      | Some a \<Rightarrow>
          (case derefHeader st a of
             None \<Rightarrow> (None, st)
           | Some hdr \<Rightarrow> (let (a', st') = newHeader hdr st in (Some a', st'))))"

text \<open>\<open>if p != nil { q = p.ResolveReference(&url.URL{}) }\<close>: a new URL object.\<close>

definition copyURL :: "'u stdlib \<Rightarrow> nat option \<Rightarrow> 'u store \<Rightarrow> nat option \<times> 'u store" where
  "copyURL lib p st =
     (case p of
        None \<Rightarrow> (None, st)
      | Some a \<Rightarrow>
          (case derefURL st a of
             None \<Rightarrow> (None, st)
           | Some u \<Rightarrow>
               (let (a', st') = newURL (url_ResolveReference lib u (url_Zero lib)) st
                in (Some a', st'))))"

text \<open>The copy loop of \<open>Clone\<close> over a field bag: the values are copied as they are.\<close>

definition cloneFields :: "(string \<times> gval) list \<Rightarrow> (string \<times> gval) list" where
  "cloneFields fs = fold (\<lambda>(key, v) m. AList.update key v m) fs []"

fun Selector_Clone :: "selector \<Rightarrow> selector" where
  "Selector_Clone (Selector n e t a f ss fs) =
     Selector n e t a f (map Selector_Clone ss) (cloneFields fs)"

definition CloneSelectors :: "selector list \<Rightarrow> selector list" where
  "CloneSelectors selectors = map Selector_Clone selectors"

definition Rules_Clone :: "'u stdlib \<Rightarrow> rules \<Rightarrow> 'u store \<Rightarrow> rules \<times> 'u store" where
  "Rules_Clone lib r st =
     (let (h, st1) = Header_Clone (Header r) st;
          (u, st2) = copyURL lib (URL r) st1;
          (p, st3) = copyURL lib (Proxy r) st2
      in (\<lparr>Method = Method r, URL = u, Proxy = p, Header = h, Timeout = Timeout r,
           UseCookies = UseCookies r, IgnoreRobotsTxt = IgnoreRobotsTxt r, Delay = Delay r,
           Selectors = CloneSelectors (Selectors r), Fields = cloneFields (Fields r)\<rparr>, st3))"

text \<open>The type assertions \<open>v.(T)\<close> of \<open>Selector.Rules\<close>: the zero value on another type.\<close>

definition asString :: "gval \<Rightarrow> string" where
  "asString v = (case v of GString s \<Rightarrow> s | _ \<Rightarrow> [])"

definition asURL :: "gval \<Rightarrow> nat option" where
  "asURL v = (case v of GURL a \<Rightarrow> Some a | _ \<Rightarrow> None)"

definition asHeader :: "gval \<Rightarrow> nat option" where
  "asHeader v = (case v of GHeader a \<Rightarrow> Some a | _ \<Rightarrow> None)"

definition asDuration :: "gval \<Rightarrow> 64 word" where
  "asDuration v = (case v of GDuration d \<Rightarrow> d | _ \<Rightarrow> 0)"

definition asBool :: "gval \<Rightarrow> bool" where
  "asBool v = (case v of GBool b \<Rightarrow> b | _ \<Rightarrow> False)"

definition Selector_Rules :: "'u stdlib \<Rightarrow> selector \<Rightarrow> rules \<Rightarrow> 'u store \<Rightarrow> rules \<times> 'u store" where
  "Selector_Rules lib selector src st =
     (let newRules = \<lparr>Method = [], URL = None, Proxy = None, Header = None,
                      Timeout = Timeout src, UseCookies = UseCookies src,
                      IgnoreRobotsTxt = IgnoreRobotsTxt src, Delay = Delay src,
                      Selectors = CloneSelectors (sSelectors selector), Fields = []\<rparr>;
          fields = sFields selector
      in if fields = [] then
           (let (p, st1) = copyURL lib (Proxy src) st;
                (h, st2) = Header_Clone (Header src) st1
            in (newRules\<lparr>Proxy := p, Header := h\<rparr>, st2))
         else
           (let method = (case map_of fields KeyMethod of Some v \<Rightarrow> asString v | None \<Rightarrow> Method newRules);
                (p, st1) = (case map_of fields KeyProxy of
                              Some v \<Rightarrow> (asURL v, st)
                            | None \<Rightarrow> copyURL lib (Proxy src) st);
                (h, st2) = (case map_of fields KeyHeader of
                              Some v \<Rightarrow> (asHeader v, st1)
                            | None \<Rightarrow> Header_Clone (Header src) st1);
                timeout = (case map_of fields KeyTimeout of Some v \<Rightarrow> asDuration v | None \<Rightarrow> Timeout newRules);
                useCookies = (case map_of fields KeyUseCookies of Some v \<Rightarrow> asBool v | None \<Rightarrow> UseCookies newRules);
                ignoreRobots = (case map_of fields KeyIgnoreRobotsTxt of Some v \<Rightarrow> asBool v | None \<Rightarrow> IgnoreRobotsTxt newRules);
                delay = (case map_of fields KeyDelay of Some v \<Rightarrow> asDuration v | None \<Rightarrow> Delay newRules)
            in (newRules\<lparr>Method := method, Proxy := p, Header := h, Timeout := timeout,
                         UseCookies := useCookies, IgnoreRobotsTxt := ignoreRobots,
                         Delay := delay\<rparr>, st2)))"



section \<open>The extraction engine (parsers)\<close>

text \<open>
  \<open>Element\<close> is an interface: an element is its three methods. \<open>Find\<close> returns an error
  or the child, \<open>None\<close> for the nil element; \<open>FindAll\<close> an error or the children. The
  elements of the parsers are in-memory trees, so the methods are functions of the
  element alone.

  The engine runs in a state: the store, the world outside (the network behind
  \<open>Response.Extract\<close>, of any type \<open>'w\<close>), and the trace of the calls made so far to
  the elements and to the collaborators. A \<open>Response\<close> is its URL and its \<open>Extract\<close>
  method, which reads the rules it is given and the store, acts on the world, and returns
  the extracted mapping (nil is \<open>None\<close>) and an error.

  Pointers that the code tests against nil are options where the test is made
  (\<open>findSelectors\<close>); the selectors of a list and the children returned by \<open>FindAll\<close> are
  not nil. \<open>ReleaseRules\<close> returns a clone to the pool and has no effect on the values
  computed here; it is left out.
\<close>

datatype element =
  Element (Value: gval)
          (Find: "string \<Rightarrow> string \<Rightarrow> error + element option")
          (FindAll: "string \<Rightarrow> string \<Rightarrow> error + element list")

datatype event =
    EvFind element string string
  | EvFindAll element string string
  | EvExtract string rules
  | EvIsAllowed rules "error option outcome"
  | EvWait
  | EvClientDo rules
  | EvStamp
  | EvDone

record ('u, 'w) state =
  heap :: "'u store"
  world :: 'w
  trace :: "event list"

record ('u, 'w) response =
  resp_URL :: 'u
  resp_Extract :: "rules \<Rightarrow> 'u store \<Rightarrow> 'w \<Rightarrow> ((string \<times> gval) list option \<times> error option) \<times> 'w"

definition ErrMustBeString :: error where
  "ErrMustBeString = Err ''must be a string''"

definition ToURL :: "'u stdlib \<Rightarrow> gval \<Rightarrow> error + 'u" where
  "ToURL lib v = (case v of GString rawURL \<Rightarrow> url_Parse lib rawURL | _ \<Rightarrow> Inl ErrMustBeString)"

fun resolveURLs :: "'u stdlib \<Rightarrow> ('u, 'w) response \<Rightarrow> gval list \<Rightarrow> 'u list \<Rightarrow> error option
    \<Rightarrow> 'u list \<times> error option" where
  "resolveURLs lib resp [] us errs = (us, errs)"
| "resolveURLs lib resp (rawU # rest) us errs =
     (case ToURL lib rawU of
        Inl err \<Rightarrow> resolveURLs lib resp rest us (AddError errs (fmt_Sprint lib rawU) (Some err))
      | Inr u \<Rightarrow>
          resolveURLs lib resp rest
            (us @ [if \<not> url_IsAbs lib u then url_ResolveReference lib (resp_URL resp) u else u])
            errs)"

text \<open>
  One turn of the second loop of \<open>followSelector\<close>: a clone of the rules with the URL
  set, and the nested fetch and extraction through \<open>resp.Extract\<close>.
\<close>

definition extractOne :: "'u stdlib \<Rightarrow> ('u, 'w) response \<Rightarrow> rules \<Rightarrow> 'u \<Rightarrow> ('u, 'w) state
    \<Rightarrow> (gval \<times> error option) \<times> ('u, 'w) state" where
  "extractOne lib resp rs u st =
     (let (cRules0, h1) = Rules_Clone lib rs (heap st);
          (a, h2) = newURL u h1;
          cRules = cRules0\<lparr>URL := Some a\<rparr>;
          ((found, err), w') = resp_Extract resp cRules h2 (world st)
      in ((GMap found, err),
          st\<lparr>heap := h2, world := w',
             trace := trace st @ [EvExtract (url_String lib u) cRules]\<rparr>))"

fun extractURLs :: "'u stdlib \<Rightarrow> ('u, 'w) response \<Rightarrow> rules \<Rightarrow> 'u list \<Rightarrow> (string \<times> gval) list
    \<Rightarrow> error option \<Rightarrow> ('u, 'w) state \<Rightarrow> ((string \<times> gval) list \<times> error option) \<times> ('u, 'w) state" where
  "extractURLs lib resp rs [] result errs st = ((result, errs), st)"
| "extractURLs lib resp rs (u # rest) result errs st =
     (let ((found, err), st') = extractOne lib resp rs u st
      in if err \<noteq> None
         then extractURLs lib resp rs rest result (AddError errs (url_String lib u) err) st'
         else extractURLs lib resp rs rest (AList.update (url_String lib u) found result) errs st')"

definition followSelector :: "'u stdlib \<Rightarrow> rules \<Rightarrow> ('u, 'w) response \<Rightarrow> selector \<Rightarrow> gval list
    \<Rightarrow> ('u, 'w) state \<Rightarrow> ((string \<times> gval) list option \<times> error option) \<times> ('u, 'w) state" where
  "followSelector lib src resp selector rawURL st =
     (let (us, errs) = resolveURLs lib resp rawURL [] None
      in if errs \<noteq> None then ((None, errs), st)
         else
           (let (rs, h1) = Selector_Rules lib selector src (heap st);
                ((result, errs'), st') = extractURLs lib resp rs us [] None (st\<lparr>heap := h1\<rparr>)
            in ((Some result, errs'), st')))"

definition appendAny :: "gval list option \<Rightarrow> gval \<Rightarrow> gval list option" where
  "appendAny sl v = (case sl of None \<Rightarrow> Some [v] | Some xs \<Rightarrow> Some (xs @ [v]))"

function (sequential)
  findSelectors :: "'u stdlib \<Rightarrow> rules \<Rightarrow> ('u, 'w) response option \<Rightarrow> selector list option
    \<Rightarrow> element option \<Rightarrow> ('u, 'w) state
    \<Rightarrow> ((string \<times> gval) list option \<times> error option) \<times> ('u, 'w) state"
and findSelectors_loop :: "'u stdlib \<Rightarrow> rules \<Rightarrow> ('u, 'w) response \<Rightarrow> selector list
    \<Rightarrow> element \<Rightarrow> (string \<times> gval) list \<Rightarrow> error option \<Rightarrow> ('u, 'w) state
    \<Rightarrow> ((string \<times> gval) list \<times> error option) \<times> ('u, 'w) state"
and findAll_loop :: "'u stdlib \<Rightarrow> rules \<Rightarrow> ('u, 'w) response \<Rightarrow> selector
    \<Rightarrow> element list \<Rightarrow> nat \<Rightarrow> gval list option \<Rightarrow> error option \<Rightarrow> ('u, 'w) state
    \<Rightarrow> ((gval list option \<times> error option) \<times> ('u, 'w) state)"
and findAllSelector :: "'u stdlib \<Rightarrow> rules \<Rightarrow> ('u, 'w) response \<Rightarrow> selector
    \<Rightarrow> element \<Rightarrow> ('u, 'w) state \<Rightarrow> (gval \<times> error option) \<times> ('u, 'w) state"
and findSelector :: "'u stdlib \<Rightarrow> rules \<Rightarrow> ('u, 'w) response \<Rightarrow> selector
    \<Rightarrow> element \<Rightarrow> ('u, 'w) state \<Rightarrow> (gval \<times> error option) \<times> ('u, 'w) state"
where
  "findSelectors lib src (Some resp) (Some selectors) (Some parent) st =
     (let ((result, errs), st') = findSelectors_loop lib src resp selectors parent [] None st
      in ((Some result, errs), st'))"
| "findSelectors lib src resp selectors parent st = ((None, None), st)"
| "findSelectors_loop lib src resp [] parent result errs st = ((result, errs), st)"
| "findSelectors_loop lib src resp (selector # rest) parent result errs st =
     (let ((found, err), st') = findSelector lib src resp selector parent st
      in if err \<noteq> None
         then findSelectors_loop lib src resp rest parent result
                (AddError errs (sName selector) err) st'
         else findSelectors_loop lib src resp rest parent
                (AList.update (sName selector) found result) errs st')"
| "findAll_loop lib src resp selector [] i result errs st = ((result, errs), st)"
| "findAll_loop lib src resp selector (child # rest) i result errs st =
     (let ((found, err), st') =
            findSelectors lib src (Some resp) (Some (sSelectors selector)) (Some child) st
      in if err \<noteq> None
         then findAll_loop lib src resp selector rest (Suc i) result
                (AddError errs (sName selector @ ''#'' @ Itoa i) err) st'
         else findAll_loop lib src resp selector rest (Suc i)
                (appendAny result (GMap found)) errs st')"
| "findAllSelector lib src resp selector parent st =
     (let st1 = st\<lparr>trace := trace st @ [EvFindAll parent (sExpr selector) (sType selector)]\<rparr>
      in case FindAll parent (sExpr selector) (sType selector) of
           Inl err \<Rightarrow> ((GNil, Some err), st1)
         | Inr children \<Rightarrow>
             if \<not> sFollow selector \<and> 0 < length (sSelectors selector) then
               (let ((result, errs), st') =
                      findAll_loop lib src resp selector children 0 None None st1
                in ((GSlice result, errs), st'))
             else
               (let result = fold (\<lambda>child r. appendAny r (Value child)) children None
                in if sFollow selector then
                     (let ((m, errs), st') =
                            followSelector lib src resp selector
                              (case result of None \<Rightarrow> [] | Some vs \<Rightarrow> vs) st1
                      in ((GMap m, errs), st'))
                   else ((GSlice result, None), st1)))"
| "findSelector lib src resp selector parent st =
     (if sAll selector then findAllSelector lib src resp selector parent st
      else
        (let st1 = st\<lparr>trace := trace st @ [EvFind parent (sExpr selector) (sType selector)]\<rparr>
         in case Find parent (sExpr selector) (sType selector) of
              Inl err \<Rightarrow> ((GNil, Some err), st1)
            | Inr None \<Rightarrow> ((GNil, None), st1)
            | Inr (Some child) \<Rightarrow>
                if sFollow selector then
                  (let ((m, errs), st') =
                         followSelector lib src resp selector [Value child] st1
                   in ((GMap m, errs), st'))
                else if 0 < length (sSelectors selector) then
                  (let ((m, errs), st') =
                         findSelectors lib src (Some resp) (Some (sSelectors selector))
                           (Some child) st1
                   in ((GMap m, errs), st'))
                else ((Value child, None), st1)))"
  by pat_completeness auto
termination
  apply (relation "measures [
     (\<lambda>x. case x of
        Inl (Inl (lib, src, resp, sels, parent, st)) \<Rightarrow>
          (case sels of None \<Rightarrow> 0 | Some l \<Rightarrow> size_list size l)
      | Inl (Inr (lib, src, resp, sels, parent, result, errs, st)) \<Rightarrow> size_list size sels
      | Inr (Inl (lib, src, resp, s, children, i, result, errs, st)) \<Rightarrow> size s
      | Inr (Inr (Inl (lib, src, resp, s, parent, st))) \<Rightarrow> size s
      | Inr (Inr (Inr (lib, src, resp, s, parent, st))) \<Rightarrow> size s),
     (\<lambda>x. case x of
        Inl (Inl _) \<Rightarrow> 1
      | Inl (Inr _) \<Rightarrow> 0
      | Inr (Inl _) \<Rightarrow> 1
      | Inr (Inr (Inl _)) \<Rightarrow> 2
      | Inr (Inr (Inr _)) \<Rightarrow> 3),
     (\<lambda>x. case x of
        Inr (Inl (lib, src, resp, s, children, i, result, errs, st)) \<Rightarrow> length children
      | _ \<Rightarrow> 0)]")
  apply auto
  subgoal for sel by (cases sel) simp
  subgoal for sel by (cases sel) simp
  done

section \<open>Colibri.Do (colibri.go)\<close>

subsection \<open>strings.TrimSpace and the header methods\<close>

text \<open>
  A Go string is its bytes. \<open>spaceLen\<close> is the number of bytes of the white space
  character (\<open>unicode.IsSpace\<close>) that a string starts with, in UTF-8, and 0 when it
  starts with none: the six of ASCII, U+0085 and U+00A0, U+1680, U+2000 to U+200A,
  U+2028, U+2029, U+202F, U+205F and U+3000. \<open>TrimSpace\<close> removes them at both ends.
\<close>

definition spaceLen :: "string \<Rightarrow> nat" where
  "spaceLen s =
     (case map of_char (take 3 s) :: nat list of
        [] \<Rightarrow> 0
      | b0 # bs \<Rightarrow>
          if b0 = 9 \<or> b0 = 10 \<or> b0 = 11 \<or> b0 = 12 \<or> b0 = 13 \<or> b0 = 32 then 1
          else if b0 = 0xC2 then
            (case bs of b1 # _ \<Rightarrow> if b1 = 0x85 \<or> b1 = 0xA0 then 2 else 0 | [] \<Rightarrow> 0)
          else if b0 = 0xE1 then
            (case bs of [b1, b2] \<Rightarrow> if b1 = 0x9A \<and> b2 = 0x80 then 3 else 0 | _ \<Rightarrow> 0)
          else if b0 = 0xE2 then
            (case bs of
               [b1, b2] \<Rightarrow>
                 if (b1 = 0x80 \<and> (0x80 \<le> b2 \<and> b2 \<le> 0x8A \<or> b2 = 0xA8 \<or> b2 = 0xA9 \<or> b2 = 0xAF))
                    \<or> (b1 = 0x81 \<and> b2 = 0x9F)
                 then 3 else 0
             | _ \<Rightarrow> 0)
          else if b0 = 0xE3 then
            (case bs of [b1, b2] \<Rightarrow> if b1 = 0x80 \<and> b2 = 0x80 then 3 else 0 | _ \<Rightarrow> 0)
          else 0)"

fun trimLeft :: "string \<Rightarrow> string" where
  "trimLeft [] = []"
| "trimLeft (c # cs) =
     (if spaceLen (c # cs) = 0 then c # cs else trimLeft (drop (spaceLen (c # cs) - 1) cs))"

text \<open>
  From the right, on the reversed string: the last one, two or three bytes that are a
  white space character.
\<close>

definition spaceLenRev :: "string \<Rightarrow> nat" where
  "spaceLenRev r =
     (if spaceLen (rev (take 1 r)) = 1 then 1
      else if spaceLen (rev (take 2 r)) = 2 then 2
      else if spaceLen (rev (take 3 r)) = 3 then 3
      else 0)"

fun trimLeftRev :: "string \<Rightarrow> string" where
  "trimLeftRev [] = []"
| "trimLeftRev (c # cs) =
     (if spaceLenRev (c # cs) = 0 then c # cs else trimLeftRev (drop (spaceLenRev (c # cs) - 1) cs))"

definition TrimSpace :: "string \<Rightarrow> string" where
  "TrimSpace s = rev (trimLeftRev (rev (trimLeft s)))"

text \<open>
  \<open>Header.Get\<close> and \<open>Header.Set\<close>, called with a key in canonical form (\<open>User-Agent\<close>
  is): the first value under the key or the empty string, and the key set to the single
  value.
\<close>

definition Header_Get :: "header \<Rightarrow> string \<Rightarrow> string" where
  "Header_Get h key = (case map_of h key of Some (v # _) \<Rightarrow> v | _ \<Rightarrow> [])"

definition Header_Set :: "header \<Rightarrow> string \<Rightarrow> string \<Rightarrow> header" where
  "Header_Set h key v = AList.update key [v] h"

subsection \<open>Collaborators and Do\<close>

definition DefaultUserAgent :: string where
  "DefaultUserAgent = ''colibri/0.1''"

definition ErrClientIsNil :: error where
  "ErrClientIsNil = Err ''Client is nil''"

definition ErrRulesIsNil :: error where
  "ErrRulesIsNil = Err ''Rules is nil''"

text \<open>
  The collaborators are interfaces; a nil one is \<open>None\<close>. A call reads the rules and the
  store, acts on the world, and returns or panics. \<open>Delay.Wait\<close> and \<open>Delay.Done\<close> are
  given \<open>rules.URL\<close>, which may be nil. \<open>Parser\<close> is not used by \<open>Do\<close>.
\<close>

record ('u, 'w) delay =
  dWait :: "'u option \<Rightarrow> 64 word \<Rightarrow> 'w \<Rightarrow> unit outcome \<times> 'w"
  dDone :: "'u option \<Rightarrow> 'w \<Rightarrow> unit outcome \<times> 'w"
  dStamp :: "'u \<Rightarrow> 'w \<Rightarrow> unit outcome \<times> 'w"

record ('u, 'w) colibri =
  cClient :: "(rules \<Rightarrow> 'u store \<Rightarrow> 'w
                \<Rightarrow> (('u, 'w) response option \<times> error option) outcome \<times> 'w) option"
  cDelay :: "('u, 'w) delay option"
  cRobotsTxt :: "(rules \<Rightarrow> 'u store \<Rightarrow> 'w \<Rightarrow> error option outcome \<times> 'w) option"

text \<open>\<open>recover\<close>: the error made from the value of the panic.\<close>

definition recovered :: "string \<Rightarrow> error" where
  "recovered p = Err p"

text \<open>
  The header of the caller's rules (lines 131 to 137 of \<open>Do\<close>): a nil header becomes a
  new empty one, and a \<open>User-Agent\<close> that is blank after trimming is set to the default,
  in the header object itself.
\<close>

definition Do_defaultUserAgent :: "rules \<Rightarrow> 'u store \<Rightarrow> rules \<times> 'u store" where
  "Do_defaultUserAgent rs h =
     (let (rs1, h1) = (case Header rs of
                         None \<Rightarrow> (let (a, h') = newHeader [] h in (rs\<lparr>Header := Some a\<rparr>, h'))
                       | Some a \<Rightarrow> (rs, h))
      in case Header rs1 of
           None \<Rightarrow> (rs1, h1)
         | Some a \<Rightarrow>
             (case derefHeader h1 a of
                None \<Rightarrow> (rs1, h1)
              | Some hdr \<Rightarrow>
                  if TrimSpace (Header_Get hdr ''User-Agent'') = []
                  then (rs1, h1\<lparr>headers := (headers h1)[a := Header_Set hdr ''User-Agent'' DefaultUserAgent]\<rparr>)
                  else (rs1, h1)))"

text \<open>
  The call of the transport and the stamp after it. The result is the named results
  \<open>resp\<close> and \<open>err\<close> as they are when the body ends, and the value of a panic under way.
\<close>

definition Do_fetch :: "('u, 'w) colibri
    \<Rightarrow> (rules \<Rightarrow> 'u store \<Rightarrow> 'w \<Rightarrow> (('u, 'w) response option \<times> error option) outcome \<times> 'w)
    \<Rightarrow> rules \<Rightarrow> ('u, 'w) state
    \<Rightarrow> (('u, 'w) response option \<times> error option \<times> string option) \<times> ('u, 'w) state" where
  "Do_fetch c client rs st =
     (let (out, w1) = client rs (heap st) (world st);
          st1 = st\<lparr>world := w1, trace := trace st @ [EvClientDo rs]\<rparr>
      in case out of
           Panic p \<Rightarrow> ((None, None, Some p), st1)
         | Return (resp, err) \<Rightarrow>
             (case (cDelay c, resp) of
                (Some d, Some r) \<Rightarrow>
                  (let (out2, w2) = dStamp d (resp_URL r) (world st1);
                       st2 = st1\<lparr>world := w2, trace := trace st1 @ [EvStamp]\<rparr>
                   in case out2 of
                        Panic p \<Rightarrow> ((resp, err, Some p), st2)
                      | Return _ \<Rightarrow> ((resp, err, None), st2))
              | _ \<Rightarrow> ((resp, err, None), st1)))"

text \<open>
  The pacing gate around the fetch: \<open>Wait\<close>, then the deferred \<open>Done\<close>, which runs when
  the body ends, also by a panic; a panic of \<open>Done\<close> takes the place of one under way.
\<close>

definition Do_paced :: "('u, 'w) colibri
    \<Rightarrow> (rules \<Rightarrow> 'u store \<Rightarrow> 'w \<Rightarrow> (('u, 'w) response option \<times> error option) outcome \<times> 'w)
    \<Rightarrow> rules \<Rightarrow> ('u, 'w) state
    \<Rightarrow> (('u, 'w) response option \<times> error option \<times> string option) \<times> ('u, 'w) state" where
  "Do_paced c client rs st =
     (case cDelay c of
        None \<Rightarrow> Do_fetch c client rs st
      | Some d \<Rightarrow>
          if 0 <s Delay rs then
            (let u = (case URL rs of None \<Rightarrow> None | Some a \<Rightarrow> derefURL (heap st) a);
                 (out, w1) = dWait d u (Delay rs) (world st);
                 st1 = st\<lparr>world := w1, trace := trace st @ [EvWait]\<rparr>
             in case out of
                  Panic p \<Rightarrow> ((None, None, Some p), st1)
                | Return _ \<Rightarrow>
                    (let ((resp, err, pan), st2) = Do_fetch c client rs st1;
                         (out3, w3) = dDone d u (world st2);
                         st3 = st2\<lparr>world := w3, trace := trace st2 @ [EvDone]\<rparr>
                     in case out3 of
                          Panic p \<Rightarrow> ((resp, err, Some p), st3)
                        | Return _ \<Rightarrow> ((resp, err, pan), st3)))
          else Do_fetch c client rs st)"

text \<open>
  \<open>Do\<close> returns the response and the error; the model returns with them the caller's
  rules as the call leaves them, and the state.
\<close>

definition Do :: "('u, 'w) colibri \<Rightarrow> rules option \<Rightarrow> ('u, 'w) state
    \<Rightarrow> (('u, 'w) response option \<times> error option) \<times> rules option \<times> ('u, 'w) state" where
  "Do c rulesArg st =
     (case cClient c of
        None \<Rightarrow> ((None, Some ErrClientIsNil), rulesArg, st)
      | Some client \<Rightarrow>
          (case rulesArg of
             None \<Rightarrow> ((None, Some ErrRulesIsNil), None, st)
           | Some rules0 \<Rightarrow>
               (let (rs, h1) = Do_defaultUserAgent rules0 (heap st);
                    st1 = st\<lparr>heap := h1\<rparr>;
                    fetch = (\<lambda>st2.
                      (let ((resp, err, pan), st3) = Do_paced c client rs st2
                       in ((resp, (case pan of Some p \<Rightarrow> Some (recovered p) | None \<Rightarrow> err)),
                           Some rs, st3)))
                in case cRobotsTxt c of
                     None \<Rightarrow> fetch st1
                   | Some robots \<Rightarrow>
                       if IgnoreRobotsTxt rs then fetch st1
                       else
                         (let (out, w1) = robots rs h1 (world st1);
                              st2 = st1\<lparr>world := w1, trace := trace st1 @ [EvIsAllowed rs out]\<rparr>
                          in case out of
                               Panic p \<Rightarrow> ((None, Some (recovered p)), Some rs, st2)
                             | Return (Some err) \<Rightarrow> ((None, Some err), Some rs, st2)
                             | Return None \<Rightarrow> fetch st2))))"

text \<open>The calls of the transport in a trace.\<close>

fun isClientDo :: "event \<Rightarrow> bool" where
  "isClientDo (EvClientDo rs) = True"
| "isClientDo _ = False"

definition clientCalls :: "event list \<Rightarrow> nat" where
  "clientCalls tr = length (filter isClientDo tr)"

section \<open>Notions used in the statements\<close>

text \<open>
  The two accumulating loops of the engine (over sibling selectors, over followed URLs)
  have one shape: each item is evaluated in the state the previous ones left; its
  error goes to the aggregator under the item's key, its value otherwise to the
  result mapping under that key.
\<close>

fun accLoop :: "('a \<Rightarrow> 's \<Rightarrow> (gval \<times> error option) \<times> 's) \<Rightarrow> ('a \<Rightarrow> string) \<Rightarrow> 'a list
    \<Rightarrow> (string \<times> gval) list \<Rightarrow> error option \<Rightarrow> 's \<Rightarrow> ((string \<times> gval) list \<times> error option) \<times> 's" where
  "accLoop step key [] result errs st = ((result, errs), st)"
| "accLoop step key (x # xs) result errs st =
     (let ((found, err), st') = step x st
      in if err \<noteq> None then accLoop step key xs result (AddError errs (key x) err) st'
         else accLoop step key xs (AList.update (key x) found result) errs st')"

text \<open>An error value that is nil or an aggregate, as the \<open>errs\<close> of every loop is.\<close>

fun isAgg :: "error option \<Rightarrow> bool" where
  "isAgg None = True"
| "isAgg (Some (Errs es)) = True"
| "isAgg (Some (Err m)) = False"


text \<open>The queries to elements in a trace, and the URLs of its calls to \<open>Extract\<close>.\<close>

fun isQuery :: "event \<Rightarrow> bool" where
  "isQuery (EvFind e x t) = True"
| "isQuery (EvFindAll e x t) = True"
| "isQuery _ = False"

fun extractCall :: "event \<Rightarrow> (string \<times> rules) option" where
  "extractCall (EvExtract u rs) = Some (u, rs)"
| "extractCall _ = None"

definition extractCalls :: "event list \<Rightarrow> (string \<times> rules) list" where
  "extractCalls tr = List.map_filter extractCall tr"

text \<open>The events a call added to the trace.\<close>

definition newEvents :: "('u, 'w) state \<Rightarrow> ('u, 'w) state \<Rightarrow> event list" where
  "newEvents st st' = drop (length (trace st)) (trace st')"

section \<open>Example inputs\<close>


definition exampleStore :: "string store" where
  "exampleStore =
     \<lparr>headers = [[(''Accept'', [''text/html''])]], urls = [''https://proxy.test:8080'']\<rparr>"

definition exampleRules :: rules where
  "exampleRules =
     \<lparr>Method = ''POST'', URL = None, Proxy = Some 0, Header = Some 0, Timeout = 5000,
      UseCookies = False, IgnoreRobotsTxt = False, Delay = 0, Selectors = [], Fields = []\<rparr>"






text \<open>
  A gate that denies every request, with the error of the gate of \<open>webextractor\<close>, and a
  transport that counts its calls in the world.
\<close>

definition ErrorRobotstxtRestriction :: error where
  "ErrorRobotstxtRestriction = Err ''Page not accessible due to robots.txt restriction''"

definition exampleResponse :: "(string, nat) response" where
  "exampleResponse =
     \<lparr>resp_URL = ''https://ex.test/p'',
      resp_Extract = (\<lambda>rs h w. ((Some [(''title'', GString ''Example Domain'')], None), Suc w))\<rparr>"

definition exampleColibri :: "(string, nat) colibri" where
  "exampleColibri =
     \<lparr>cClient = Some (\<lambda>rs h w. (Return (Some exampleResponse, None), Suc w)),
      cDelay = None,
      cRobotsTxt = Some (\<lambda>rs h w. (Return (Some ErrorRobotstxtRestriction), w))\<rparr>"

definition exampleState :: "(string, nat) state" where
  "exampleState = \<lparr>heap = exampleStore, world = 0, trace = []\<rparr>"

section \<open>Properties\<close>

subsection \<open>Raw entries with an empty expression\<close>

lemma newSelector_empty_string: "newSelector name (GString []) convF = Return (None, None)"
  by (simp add: newSelector_def)

lemma newSelectors_loop_skip:
  "newSelectors_loop convF
     (filter (\<lambda>(name, v). name \<noteq> [] \<and> v \<noteq> GNil \<and> v \<noteq> GString []) m) selectors errs
   = newSelectors_loop convF m selectors errs"
proof (induction m arbitrary: selectors errs)
  case Nil
  show ?case by simp
next
  case (Cons entry m)
  obtain name v where entry: "entry = (name, v)" by (cases entry)
  show ?case
  proof (cases "name \<noteq> [] \<and> v \<noteq> GNil \<and> v \<noteq> GString []")
    case True
    then show ?thesis
      using Cons.IH by (simp add: entry split: outcome.splits prod.splits option.splits)
  next
    case False
    then show ?thesis
      using Cons.IH by (auto simp: entry newSelector_empty_string)
  qed
qed

text \<open>
  Claim C10. \<open>newSelector\<close>, given the empty string as the raw value, returns neither a
  selector nor an error, under every name and conversion function. In \<open>newSelectors\<close> an
  entry whose value is the empty string therefore leaves no trace: the sibling list, the
  aggregated error and a panic of a later entry are those of the raw mapping without its
  entries that have an empty name, a nil value or an empty string value. A mapping with
  the empty string as its only value gives the empty list and no error, so no selector
  with an empty expression is built and \<open>ErrInvalidSelector\<close> is not reported.
\<close>

theorem C10_empty_expression_omitted:
  "newSelector name (GString []) convF = Return (None, None)
   \<and> newSelectors (GMap (Some m)) convF
       = newSelectors
           (GMap (Some (filter (\<lambda>(name, v). name \<noteq> [] \<and> v \<noteq> GNil \<and> v \<noteq> GString []) m))) convF
   \<and> newSelectors (GMap (Some [(name, GString [])])) convF = Return (Some [], None)"
  by (simp add: newSelector_empty_string newSelectors_def newSelectors_loop_skip)


subsection \<open>The store under cloning\<close>











subsection \<open>The rules of a followed selector\<close>




















subsection \<open>Do: the robots gate and the header of the caller's rules\<close>

lemma Do_fetch_heap: "heap (snd (Do_fetch c client rs st)) = heap st"
  by (simp add: Do_fetch_def Let_def split_beta split: outcome.splits option.splits prod.splits)

lemma Do_paced_heap: "heap (snd (Do_paced c client rs st)) = heap st"
  by (simp add: Do_paced_def Let_def split_beta Do_fetch_heap split: outcome.splits option.splits)

lemma Do_rules_heap:
  assumes "cClient c = Some client"
  shows "fst (snd (Do c (Some rules0) st)) = Some (fst (Do_defaultUserAgent rules0 (heap st)))
       \<and> heap (snd (snd (Do c (Some rules0) st))) = snd (Do_defaultUserAgent rules0 (heap st))"
  using assms
  by (simp add: Do_def Let_def split_beta Do_paced_heap split: outcome.splits option.splits)

lemma TrimSpace_default: "TrimSpace DefaultUserAgent \<noteq> []"
  by (simp add: TrimSpace_def DefaultUserAgent_def spaceLen_def spaceLenRev_def)

lemma Header_Get_Set: "Header_Get (Header_Set h key v) key = v"
  by (simp add: Header_Get_def Header_Set_def update_conv')

lemma Do_defaultUserAgent_frame:
  "(fst (Do_defaultUserAgent rs h))\<lparr>Header := Header rs\<rparr> = rs
   \<and> urls (snd (Do_defaultUserAgent rs h)) = urls h"
  by (simp add: Do_defaultUserAgent_def Let_def newHeader_def split: option.splits)

lemma Do_defaultUserAgent_nil:
  "Header rs = None \<Longrightarrow>
   Header (fst (Do_defaultUserAgent rs h)) = Some (length (headers h))
   \<and> headers (snd (Do_defaultUserAgent rs h)) = headers h @ [[(''User-Agent'', [DefaultUserAgent])]]"
  by (simp add: Do_defaultUserAgent_def Let_def newHeader_def derefHeader_def Header_Get_def
      Header_Set_def TrimSpace_def split: option.splits)

lemma Do_defaultUserAgent_set:
  "Header rs = Some a \<Longrightarrow> derefHeader h a = Some hdr \<Longrightarrow>
   Header (fst (Do_defaultUserAgent rs h)) = Some a
   \<and> headers (snd (Do_defaultUserAgent rs h))
       = (headers h)[a := if TrimSpace (Header_Get hdr ''User-Agent'') = []
                          then Header_Set hdr ''User-Agent'' DefaultUserAgent else hdr]"
  by (auto simp add: Do_defaultUserAgent_def Let_def derefHeader_def split: option.splits if_splits)

text \<open>
  Claim C7. A transport and a robots gate are configured, the rules are not nil and do
  not ask to ignore robots.txt, and the gate, asked about the rules as \<open>Do\<close> has
  prepared them, returns an error. Then \<open>Do\<close> returns no response and that error, the
  only call it makes is the one to the gate, the world is as the gate left it, and the
  number of calls of the transport made by this \<open>Do\<close> is 0. (What the gate does on its
  own, such as the gate of \<open>webextractor\<close> fetching robots.txt through a \<open>Do\<close> of its
  own, is part of the world.)
\<close>

theorem C7_robots_denied:
  assumes "cClient c = Some client"
      and "cRobotsTxt c = Some robots"
      and "\<not> IgnoreRobotsTxt rules0"
      and "fst (robots (fst (Do_defaultUserAgent rules0 (heap st)))
                       (snd (Do_defaultUserAgent rules0 (heap st))) (world st))
           = Return (Some err)"
  shows "fst (Do c (Some rules0) st) = (None, Some err)
       \<and> trace (snd (snd (Do c (Some rules0) st)))
           = trace st @ [EvIsAllowed (fst (Do_defaultUserAgent rules0 (heap st))) (Return (Some err))]
       \<and> world (snd (snd (Do c (Some rules0) st)))
           = snd (robots (fst (Do_defaultUserAgent rules0 (heap st)))
                         (snd (Do_defaultUserAgent rules0 (heap st))) (world st))
       \<and> clientCalls (drop (length (trace st)) (trace (snd (snd (Do c (Some rules0) st))))) = 0"
proof -
  have ign: "\<not> IgnoreRobotsTxt (fst (Do_defaultUserAgent rules0 (heap st)))"
    using assms(3) Do_defaultUserAgent_frame[of rules0 "heap st"]
    by (metis rules.select_convs(7) rules.surjective rules.update_convs(4))
  show ?thesis
    using assms(1,2,4) ign
    by (simp add: Do_def Let_def split_beta clientCalls_def)
qed

theorem C7_robots_denied_witness:
  "cClient exampleColibri \<noteq> None \<and> cRobotsTxt exampleColibri \<noteq> None
   \<and> \<not> IgnoreRobotsTxt exampleRules
   \<and> fst (Do exampleColibri (Some exampleRules) exampleState)
       = (None, Some ErrorRobotstxtRestriction)
   \<and> world (snd (snd (Do exampleColibri (Some exampleRules) exampleState))) = 0
   \<and> clientCalls (trace (snd (snd (Do exampleColibri (Some exampleRules) exampleState)))) = 0"
proof -
  have c: "cClient exampleColibri = Some (\<lambda>rs h w. (Return (Some exampleResponse, None), Suc w))"
    and r: "cRobotsTxt exampleColibri = Some (\<lambda>rs h w. (Return (Some ErrorRobotstxtRestriction), w))"
    and i: "\<not> IgnoreRobotsTxt exampleRules"
    by (simp_all add: exampleColibri_def exampleRules_def)
  have d: "fst ((\<lambda>rs h w. (Return (Some ErrorRobotstxtRestriction), w))
             (fst (Do_defaultUserAgent exampleRules (heap exampleState)))
             (snd (Do_defaultUserAgent exampleRules (heap exampleState))) (world exampleState))
           = Return (Some ErrorRobotstxtRestriction)"
    by simp
  show ?thesis
    using C7_robots_denied[OF c r i d] c r i
    by (simp add: exampleState_def clientCalls_def)
qed


lemma Do_defaultUserAgent_not_blank:
  "(case Header (fst (Do_defaultUserAgent rs h)) of
      None \<Rightarrow> False
    | Some a \<Rightarrow>
        (case derefHeader (snd (Do_defaultUserAgent rs h)) a of
           None \<Rightarrow> True
         | Some hdr \<Rightarrow> TrimSpace (Header_Get hdr ''User-Agent'') \<noteq> []))"
proof (cases "Header rs")
  case None
  from Do_defaultUserAgent_nil[OF None, of h] show ?thesis
    using TrimSpace_default
    by (simp add: derefHeader_def Header_Get_def)
next
  case (Some a)
  show ?thesis
  proof (cases "derefHeader h a")
    case None
    then show ?thesis using Some
      by (simp add: Do_defaultUserAgent_def)
  next
    case (Some hdr)
    from Do_defaultUserAgent_set[OF \<open>Header rs = Some a\<close> Some] Some show ?thesis
      using TrimSpace_default Header_Get_Set[of hdr "''User-Agent''" DefaultUserAgent]
      by (auto simp: derefHeader_def split: if_splits)
  qed
qed

text \<open>
  Claim C9, amended. When a transport is configured, \<open>Do\<close> called with non-nil rules
  leaves the caller's rules and the store as the header defaulting leaves them,
  whatever the gates and the transport do afterwards (they read the rules and the
  store; they fail, return or panic): every field but \<open>Header\<close> is unchanged, and no URL
  object changes; a nil header is replaced by a new header object that holds
  \<open>User-Agent: colibri/0.1\<close> alone; in a header that is there, \<open>User-Agent\<close> is set to
  the default when its first value is blank after trimming, and nothing changes
  otherwise. After the call the header is not nil and its \<open>User-Agent\<close> is not blank.
\<close>

theorem C9_do_defaults_user_agent:
  assumes "cClient c = Some client"
  shows "(let rs = fst (Do_defaultUserAgent rules0 (heap st));
              h1 = snd (Do_defaultUserAgent rules0 (heap st))
          in fst (snd (Do c (Some rules0) st)) = Some rs
           \<and> heap (snd (snd (Do c (Some rules0) st))) = h1
           \<and> rs\<lparr>Header := Header rules0\<rparr> = rules0
           \<and> urls h1 = urls (heap st)
           \<and> (case Header rules0 of
                 None \<Rightarrow>
                   Header rs = Some (length (headers (heap st)))
                   \<and> headers h1 = headers (heap st) @ [[(''User-Agent'', [DefaultUserAgent])]]
               | Some a \<Rightarrow>
                   Header rs = Some a
                   \<and> (case derefHeader (heap st) a of
                        None \<Rightarrow> h1 = heap st
                      | Some hdr \<Rightarrow>
                          headers h1
                            = (headers (heap st))
                                [a := if TrimSpace (Header_Get hdr ''User-Agent'') = []
                                      then Header_Set hdr ''User-Agent'' DefaultUserAgent
                                      else hdr]))
           \<and> (case Header rs of
                 None \<Rightarrow> False
               | Some a \<Rightarrow>
                   (case derefHeader h1 a of
                      None \<Rightarrow> True
                    | Some hdr \<Rightarrow> TrimSpace (Header_Get hdr ''User-Agent'') \<noteq> [])))"
proof -
  have cases_hdr: "(case Header rules0 of
                 None \<Rightarrow>
                   Header (fst (Do_defaultUserAgent rules0 (heap st))) = Some (length (headers (heap st)))
                   \<and> headers (snd (Do_defaultUserAgent rules0 (heap st)))
                       = headers (heap st) @ [[(''User-Agent'', [DefaultUserAgent])]]
               | Some a \<Rightarrow>
                   Header (fst (Do_defaultUserAgent rules0 (heap st))) = Some a
                   \<and> (case derefHeader (heap st) a of
                        None \<Rightarrow> snd (Do_defaultUserAgent rules0 (heap st)) = heap st
                      | Some hdr \<Rightarrow>
                          headers (snd (Do_defaultUserAgent rules0 (heap st)))
                            = (headers (heap st))
                                [a := if TrimSpace (Header_Get hdr ''User-Agent'') = []
                                      then Header_Set hdr ''User-Agent'' DefaultUserAgent
                                      else hdr]))"
  proof (cases "Header rules0")
    case None
    then show ?thesis using Do_defaultUserAgent_nil[OF None, of "heap st"] by simp
  next
    case (Some a)
    show ?thesis
    proof (cases "derefHeader (heap st) a")
      case None
      then show ?thesis using Some by (simp add: Do_defaultUserAgent_def)
    next
      case (Some hdr)
      from Do_defaultUserAgent_set[OF \<open>Header rules0 = Some a\<close> Some] show ?thesis
        using Some \<open>Header rules0 = Some a\<close> by simp
    qed
  qed
  show ?thesis
    unfolding Let_def
    using Do_rules_heap[OF assms, of rules0 st] Do_defaultUserAgent_frame[of rules0 "heap st"]
      cases_hdr Do_defaultUserAgent_not_blank[of rules0 "heap st"]
    by simp
qed

text \<open>
  Claim C9, as stated, fails when no transport is configured: \<open>Do\<close> returns
  \<open>ErrClientIsNil\<close> before it looks at the rules, and a nil header stays nil.
\<close>

theorem C9_no_client_counterexample:
  "Header (exampleRules\<lparr>Header := None\<rparr>) = None
   \<and> fst (Do (exampleColibri\<lparr>cClient := None\<rparr>) (Some (exampleRules\<lparr>Header := None\<rparr>)) exampleState)
       = (None, Some ErrClientIsNil)
   \<and> fst (snd (Do (exampleColibri\<lparr>cClient := None\<rparr>) (Some (exampleRules\<lparr>Header := None\<rparr>))
                 exampleState))
       = Some (exampleRules\<lparr>Header := None\<rparr>)
   \<and> heap (snd (snd (Do (exampleColibri\<lparr>cClient := None\<rparr>)
                       (Some (exampleRules\<lparr>Header := None\<rparr>)) exampleState)))
       = exampleStore"
  by (simp add: Do_def exampleState_def)

theorem C9_do_defaults_user_agent_witness:
  "cClient exampleColibri \<noteq> None
   \<and> fst (Do exampleColibri (Some (exampleRules\<lparr>Header := None\<rparr>)) exampleState)
       = (None, Some ErrorRobotstxtRestriction)
   \<and> (case fst (snd (Do exampleColibri (Some (exampleRules\<lparr>Header := None\<rparr>)) exampleState)) of
         None \<Rightarrow> False
       | Some rs \<Rightarrow> Header rs = Some 1 \<and> rs\<lparr>Header := None\<rparr> = exampleRules\<lparr>Header := None\<rparr>)
   \<and> headers (heap (snd (snd (Do exampleColibri (Some (exampleRules\<lparr>Header := None\<rparr>))
                                exampleState))))
       = [[(''Accept'', [''text/html''])], [(''User-Agent'', [''colibri/0.1''])]]"
proof -
  have c: "cClient exampleColibri = Some (\<lambda>rs h w. (Return (Some exampleResponse, None), Suc w))"
    by (simp add: exampleColibri_def)
  have res: "fst (Do exampleColibri (Some (exampleRules\<lparr>Header := None\<rparr>)) exampleState)
       = (None, Some ErrorRobotstxtRestriction)"
    by (simp add: Do_def exampleColibri_def Let_def split_beta)
       (simp add: exampleRules_def Do_defaultUserAgent_def newHeader_def Let_def split_beta
          split: option.splits)
  have hs: "headers (heap exampleState) = [[(''Accept'', [''text/html''])]]"
    by (simp add: exampleState_def exampleStore_def)
  show ?thesis
    using C9_do_defaults_user_agent[OF c, of "exampleRules\<lparr>Header := None\<rparr>" exampleState] c res
    by (simp add: Let_def hs DefaultUserAgent_def)
qed


end
